theory Spec2Isabelle
  imports Complex_Main "HOL-Library.Product_Lexorder" "HOL-Library.Multiset"
begin

section \<open>Python values, errors and HTTP responses\<close>

text \<open>
  The library is dynamically typed.  Where the source tests the runtime type of a value
  (\<^verbatim>\<open>isinstance(quantity, int)\<close>) or compares values of different types
  (\<^verbatim>\<open>trade_type in (0, 2)\<close>), the value is a \<open>pyval\<close>: a Python \<^verbatim>\<open>int\<close> or a Python
  \<^verbatim>\<open>str\<close>, which stands for every value that is not an \<^verbatim>\<open>int\<close> (a \<^verbatim>\<open>bool\<close>, which Python
  counts as an \<^verbatim>\<open>int\<close>, is not represented).  Prices and money amounts are
  \<^verbatim>\<open>decimal.Decimal\<close> (or \<^verbatim>\<open>int\<close>) values in the source; they are exact rationals here, and
  a binary \<^verbatim>\<open>float\<close> price is outside the model.
\<close>

datatype pyval = PInt int | PStr string

text \<open>
  Every \<^verbatim>\<open>raise\<close> of the source is a constructor.  The four \<^verbatim>\<open>ValueError\<close>s and the
  \<^verbatim>\<open>TypeError\<close> of \<^verbatim>\<open>Contract._post_order\<close> are kept apart by their message.
\<close>

datatype error =
    PriceRangeError            \<comment> \<open>ValueError: Price must be between $0.01 and $0.99\<close>
  | QuantityTypeError          \<comment> \<open>TypeError: Quantity must be an int\<close>
  | QuantityNotPositive        \<comment> \<open>ValueError: Quantity must be positive\<close>
  | OwnYesTradeNo              \<comment> \<open>ValueError: Can't trade No shares and own Yes shares\<close>
  | OwnNoTradeYes              \<comment> \<open>ValueError: Can't trade Yes shares and own No shares\<close>
  | SellExceedsOwned           \<comment> \<open>ValueError: Can't sell n shares; only own m\<close>
  | InvestmentCapExceeded      \<comment> \<open>ValueError: Cannot invest more than $850 in a contract\<close>
  | HTTPError nat              \<comment> \<open>raised by \<^verbatim>\<open>raise_for_status\<close>, with the status code\<close>
  | NotImplementedError        \<comment> \<open>a timezone other than ET\<close>
  | StrptimeError              \<comment> \<open>ValueError of \<^verbatim>\<open>datetime.strptime\<close>\<close>
  | KeyError
  | ZeroDivisionError
  | TimeoutError
  | RequestError               \<comment> \<open>a \<^verbatim>\<open>requests\<close> exception other than a timeout\<close>

text \<open>
  A \<^verbatim>\<open>requests.Response\<close>: the status code and the decoded JSON body.  The body is
  typed: a payload that lacks a key the source reads is outside the model.
\<close>

record 'a response =
  status_code :: nat
  json :: 'a

text \<open>\<^verbatim>\<open>Response.raise_for_status\<close> raises for the 4xx and 5xx codes.\<close>

definition raise_for_status :: "'a response \<Rightarrow> error + unit" where
  "raise_for_status resp =
     (if 400 \<le> status_code resp \<and> status_code resp < 600
      then Inl (HTTPError (status_code resp)) else Inr ())"

text \<open>\<^verbatim>\<open>int(x)\<close> on a number truncates towards zero.\<close>

definition py_int :: "rat \<Rightarrow> int" where
  "py_int x = (if 0 \<le> x then \<lfloor>x\<rfloor> else \<lceil>x\<rceil>)"

text \<open>\<^verbatim>\<open>str(n)\<close> on an \<^verbatim>\<open>int\<close>, and on a \<open>pyval\<close>.\<close>

fun str_nat :: "nat \<Rightarrow> string" where
  "str_nat n =
     (if n < 10 then [''0123456789'' ! n]
      else str_nat (n div 10) @ [''0123456789'' ! (n mod 10)])"

declare str_nat.simps [simp del]

definition str_int :: "int \<Rightarrow> string" where
  "str_int i = (if i < 0 then CHR ''-'' # str_nat (nat (- i)) else str_nat (nat i))"

fun py_str :: "pyval \<Rightarrow> string" where
  "py_str (PInt i) = str_int i"
| "py_str (PStr s) = s"

text \<open>
  \<^verbatim>\<open>x in (a, b)\<close> compares \<open>x\<close> with \<open>a\<close> and \<open>b\<close> by \<^verbatim>\<open>==\<close>.  A \<^verbatim>\<open>str\<close> is never equal to
  an \<^verbatim>\<open>int\<close>.
\<close>

fun py_eq_int :: "pyval \<Rightarrow> int \<Rightarrow> bool" where
  "py_eq_int (PInt i) k = (i = k)"
| "py_eq_int (PStr s) k = False"

definition in_pair :: "pyval \<Rightarrow> int \<Rightarrow> int \<Rightarrow> bool" where
  "in_pair x a b = (py_eq_int x a \<or> py_eq_int x b)"

section \<open>Contract\<close>

record datetime =
  year :: nat
  month :: nat
  day :: nat
  hour :: nat
  minute :: nat
  second :: nat
  microsecond :: nat

text \<open>
  \<^verbatim>\<open>datetime.strptime(data, format)\<close> belongs to the standard library, not to this
  repository: the functions that call it take it as the parameter \<open>strptime\<close>.
\<close>

type_synonym strptime_fn = "string \<Rightarrow> string \<Rightarrow> error + datetime"

text \<open>A record of the \<^verbatim>\<open>shares\<close> list of the Shares payload, and the same after the loop of
  \<^verbatim>\<open>_update_shares\<close> has replaced its date string by a \<^verbatim>\<open>datetime\<close>.\<close>

record raw_share =
  predictionType :: int
  sharesOwned :: int
  pricePerShare :: rat
  dateExecuted :: string

record share =
  s_predictionType :: int
  s_sharesOwned :: int
  s_pricePerShare :: rat
  s_dateExecuted :: datetime

record shares_info =
  contractName :: string
  shares :: "raw_share list"

text \<open>An order of the order book is the tuple \<^verbatim>\<open>(pricePerShare, quantity)\<close>.\<close>

type_synonym order = "rat \<times> int"

text \<open>
  The fields of a \<^verbatim>\<open>Contract\<close> object.  \<^verbatim>\<open>_order_book\<close> is a \<^verbatim>\<open>dict\<close> with the keys 0 and 1.
  \<^verbatim>\<open>_my_prediction\<close> is \<^verbatim>\<open>None\<close> or the \<^verbatim>\<open>predictionType\<close> of a share record.
\<close>

record contract =
  contract_id :: int
  contract_name :: string
  order_book :: "int \<rightharpoonup> order list"
  my_prediction :: "int option"
  shares_owned :: int
  investment :: rat
  share_details :: "share list"

subsection \<open>Submitting orders\<close>

text \<open>
  The form data of the POST to \<^verbatim>\<open>/api/Trade/SubmitTrade\<close>.  The session is the list of
  the requests it has sent, so that reaching the POST is visible in the state; the
  server's answer is the parameter \<open>server\<close>.
\<close>

record trade_request =
  req_pricePerShare :: string
  req_quantity :: string
  req_contractId :: string
  req_tradeType :: string

type_synonym session = "trade_request list"

text \<open>
  \<^verbatim>\<open>Contract._post_order\<close>, statement by statement.  The truth value of
  \<^verbatim>\<open>self.my_prediction\<close> (an \<^verbatim>\<open>int\<close>) is \<open>p \<noteq> 0\<close>.
\<close>

definition post_order ::
  "(trade_request \<Rightarrow> unit response) \<Rightarrow> contract \<Rightarrow> pyval \<Rightarrow> rat \<Rightarrow> pyval \<Rightarrow> session
     \<Rightarrow> (error + unit response) \<times> session" where
  "post_order server c trade_type price quantity sess =
     (let int_price = py_int (100 * price) in
      if \<not> (1 \<le> int_price \<and> int_price \<le> 99) then (Inl PriceRangeError, sess)
      else case quantity of
        PStr s \<Rightarrow> (Inl QuantityTypeError, sess)
      | PInt q \<Rightarrow>
          if q \<le> 0 then (Inl QuantityNotPositive, sess)
          else if my_prediction c \<noteq> None \<and> the (my_prediction c) \<noteq> 0
                  \<and> in_pair trade_type 0 2
            then (Inl OwnYesTradeNo, sess)
          else if my_prediction c \<noteq> None \<and> \<not> the (my_prediction c) \<noteq> 0
                  \<and> in_pair trade_type 1 3
            then (Inl OwnNoTradeYes, sess)
          else if q > shares_owned c \<and> in_pair trade_type 2 3
            then (Inl SellExceedsOwned, sess)
          else if in_pair trade_type 0 1 \<and> price * of_int q + investment c > 850
            then (Inl InvestmentCapExceeded, sess)
          else
            (let data = \<lparr> req_pricePerShare = str_int int_price,
                          req_quantity = str_int q,
                          req_contractId = str_int (contract_id c),
                          req_tradeType = py_str trade_type \<rparr>;
                 resp = server data
             in case raise_for_status resp of
                  Inl e \<Rightarrow> (Inl e, sess @ [data])
                | Inr u \<Rightarrow> (Inr resp, sess @ [data])))"

text \<open>The four public trade methods pass the trade type as a \<^verbatim>\<open>str\<close>.\<close>

definition buy_no where
  "buy_no server c price quantity sess = post_order server c (PStr ''0'') price quantity sess"

definition buy_yes where
  "buy_yes server c price quantity sess = post_order server c (PStr ''1'') price quantity sess"

definition sell_no where
  "sell_no server c price quantity sess = post_order server c (PStr ''2'') price quantity sess"

definition sell_yes where
  "sell_yes server c price quantity sess = post_order server c (PStr ''3'') price quantity sess"

subsection \<open>Order book\<close>

text \<open>
  \<^verbatim>\<open>Contract._update_order_book\<close>.  An entry of the payload has the keys
  \<^verbatim>\<open>pricePerShare\<close> and \<^verbatim>\<open>quantity\<close>; the list comprehensions turn each into a tuple.
  \<^verbatim>\<open>list.sort()\<close> on tuples sorts by the lexicographic order (price first, then
  quantity), which is the order of \<open>rat \<times> int\<close> here.  The function returns the
  exception it raised, if any, and the object's fields as they are then.
\<close>

record book_entry =
  be_pricePerShare :: rat
  be_quantity :: int

record order_book_payload =
  yesOrders :: "book_entry list"
  noOrders :: "book_entry list"

definition update_order_book ::
  "order_book_payload response \<Rightarrow> contract \<Rightarrow> error option \<times> contract" where
  "update_order_book resp c =
     (case raise_for_status resp of
        Inl e \<Rightarrow> (Some e, c)
      | Inr u \<Rightarrow>
          (let orders = json resp;
               ob0 = Map.empty;
               ob1 = ob0(1 \<mapsto> map (\<lambda>n. (be_pricePerShare n, be_quantity n)) (yesOrders orders));
               ob2 = ob1(0 \<mapsto> map (\<lambda>n. (be_pricePerShare n, be_quantity n)) (noOrders orders));
               ob3 = ob2(1 \<mapsto> sort (the (ob2 1)));
               ob4 = ob3(0 \<mapsto> sort (the (ob3 0)))
           in (None, c\<lparr>order_book := ob4\<rparr>)))"

text \<open>\<^verbatim>\<open>[(1 - p, q) for p, q in xs]\<close>\<close>

definition complement_orders :: "order list \<Rightarrow> order list" where
  "complement_orders xs = map (\<lambda>(p, q). (1 - p, q)) xs"

text \<open>
  The four views.  \<^verbatim>\<open>self._order_book[k]\<close> raises \<^verbatim>\<open>KeyError\<close> on a missing key.
  These definitions give the value of the list a view returns; that the list is a new
  object is the subject of the section on list objects below.
\<close>

definition no_asks :: "contract \<Rightarrow> error + order list" where
  "no_asks c = (case order_book c 0 of None \<Rightarrow> Inl KeyError
                | Some xs \<Rightarrow> Inr (complement_orders xs))"

definition yes_asks :: "contract \<Rightarrow> error + order list" where
  "yes_asks c = (case order_book c 1 of None \<Rightarrow> Inl KeyError | Some xs \<Rightarrow> Inr xs)"

definition no_bids :: "contract \<Rightarrow> error + order list" where
  "no_bids c = (case order_book c 1 of None \<Rightarrow> Inl KeyError
                | Some xs \<Rightarrow> Inr (complement_orders xs))"

definition yes_bids :: "contract \<Rightarrow> error + order list" where
  "yes_bids c = (case order_book c 0 of None \<Rightarrow> Inl KeyError | Some xs \<Rightarrow> Inr xs)"

subsection \<open>Owned shares\<close>

text \<open>
  The loop of \<^verbatim>\<open>_update_shares\<close>: it parses the date of each record, then adds to
  \<^verbatim>\<open>_shares_owned\<close> and \<^verbatim>\<open>_investment\<close>.  An exception of \<open>strptime\<close> leaves the loop
  with the sums as they are at that record.
\<close>

definition date_format :: "string \<Rightarrow> string" where
  "date_format d =
     (if CHR ''.'' \<in> set d then ''%Y-%m-%dT%H:%M:%S.%f'' else ''%Y-%m-%dT%H:%M:%S'')"

fun shares_loop ::
  "strptime_fn \<Rightarrow> raw_share list \<Rightarrow> contract \<Rightarrow> (error + share list) \<times> contract" where
  "shares_loop strptime [] c = (Inr [], c)"
| "shares_loop strptime (s # ss) c =
     (case strptime (dateExecuted s) (date_format (dateExecuted s)) of
        Inl e \<Rightarrow> (Inl e, c)
      | Inr d \<Rightarrow>
          (let c1 = c\<lparr>shares_owned := shares_owned c + sharesOwned s\<rparr>;
               c2 = c1\<lparr>investment := investment c1 + pricePerShare s * of_int (sharesOwned s)\<rparr>
           in case shares_loop strptime ss c2 of
                (Inl e, c3) \<Rightarrow> (Inl e, c3)
              | (Inr ps, c3) \<Rightarrow>
                  (Inr (\<lparr> s_predictionType = predictionType s, s_sharesOwned = sharesOwned s,
                          s_pricePerShare = pricePerShare s, s_dateExecuted = d \<rparr> # ps), c3)))"

text \<open>\<^verbatim>\<open>Contract._update_shares\<close>\<close>

definition update_shares ::
  "strptime_fn \<Rightarrow> shares_info response \<Rightarrow> contract \<Rightarrow> error option \<times> contract" where
  "update_shares strptime resp c =
     (case raise_for_status resp of
        Inl e \<Rightarrow> (Some e, c)
      | Inr u \<Rightarrow>
          (let shares_info = json resp;
               c1 = c\<lparr>contract_name := contractName shares_info\<rparr>;
               c2 = (case shares shares_info of
                       [] \<Rightarrow> c1\<lparr>my_prediction := None\<rparr>
                     | s # ss \<Rightarrow> c1\<lparr>my_prediction := Some (predictionType s)\<rparr>);
               c3 = c2\<lparr>shares_owned := 0, investment := 0\<rparr>
           in case shares_loop strptime (shares shares_info) c3 of
                (Inl e, c4) \<Rightarrow> (Some e, c4)
              | (Inr ps, c4) \<Rightarrow> (None, c4\<lparr>share_details := ps\<rparr>)))"

text \<open>The contract after the assignments of \<^verbatim>\<open>_update_shares\<close> that precede its loop.\<close>

definition after_reset :: "shares_info \<Rightarrow> contract \<Rightarrow> contract" where
  "after_reset si c =
     (case shares si of
        [] \<Rightarrow> c\<lparr>contract_name := contractName si\<rparr>\<lparr>my_prediction := None\<rparr>
      | s # ss \<Rightarrow> c\<lparr>contract_name := contractName si\<rparr>\<lparr>my_prediction := Some (predictionType s)\<rparr>)
     \<lparr>shares_owned := 0, investment := 0\<rparr>"

text \<open>
  \<^verbatim>\<open>Contract.mean_price_per_share\<close>: Python's \<^verbatim>\<open>/\<close> raises on a zero divisor.  The
  quotient is the exact one; the rounding of \<^verbatim>\<open>Decimal\<close> division to the precision of
  the decimal context is not modelled.
\<close>

definition mean_price_per_share :: "contract \<Rightarrow> error + rat" where
  "mean_price_per_share c =
     (if shares_owned c = 0 then Inl ZeroDivisionError
      else Inr (investment c / of_int (shares_owned c)))"

section \<open>Market\<close>

text \<open>The JSON object of \<^verbatim>\<open>/api/Market/{id}\<close>, with the keys \<^verbatim>\<open>_update_info\<close> reads.\<close>

record market_info =
  marketName :: string
  marketType :: int
  dateEndString :: string
  isActive :: bool
  mi_rule :: string
  userHasOwnership :: bool
  userHasTradeHistory :: bool
  userInvestment :: rat
  userMaxPayout :: rat
  mi_info :: "string option"
  dateOpened :: string
  isMarketWatched :: bool
  mi_status :: string
  isOpen :: bool
  isOpenStatusMessage :: "string option"
  isTradingSuspended :: bool
  isTradingSuspendedMessage :: "string option"
  isEngineBusy :: bool
  isEngineBusyMessage :: "string option"

record market_contract =
  contractId :: int

text \<open>The fields of a \<^verbatim>\<open>Market\<close> object (\<^verbatim>\<open>_investment\<close> is \<open>market_investment\<close>).\<close>

record market =
  market_id :: int
  market_name :: string
  market_type :: int
  end_date :: "datetime option"
  is_active :: bool
  rule :: string
  have_ownership :: bool
  have_trade_history :: bool
  market_investment :: rat
  max_payout :: rat
  info :: "string option"
  date_opened :: datetime
  is_market_watched :: bool
  status :: string
  is_open :: bool
  is_open_status_message :: "string option"
  is_trading_suspended :: bool
  is_trading_suspended_message :: "string option"
  is_engine_busy :: bool
  is_engine_busy_message :: "string option"
  contract_ids :: "int list"

text \<open>\<^verbatim>\<open>s.strip(chars)\<close> removes the leading and trailing characters that are in \<open>chars\<close>.\<close>

definition py_strip :: "string \<Rightarrow> string \<Rightarrow> string" where
  "py_strip chars s =
     rev (dropWhile (\<lambda>ch. ch \<in> set chars) (rev (dropWhile (\<lambda>ch. ch \<in> set chars) s)))"

text \<open>
  The end date of \<^verbatim>\<open>_update_info\<close>.  \<^verbatim>\<open>strptime\<close> returns a naive \<^verbatim>\<open>datetime\<close>;
  \<^verbatim>\<open>astimezone\<close> on a naive \<^verbatim>\<open>datetime\<close> presumes that it is a time of the system's
  timezone (Python 3.6 and later), and the two further steps
  \<^verbatim>\<open>.astimezone(UTC).replace(tzinfo=None)\<close> give the UTC time of that instant.  The
  parameter \<open>system_to_utc\<close> is this conversion of the machine the code runs on: from a
  civil time of the system's timezone to the UTC civil time of the same instant.
\<close>

definition parse_end_date ::
  "strptime_fn \<Rightarrow> (datetime \<Rightarrow> datetime) \<Rightarrow> string \<Rightarrow> error + datetime option" where
  "parse_end_date strptime system_to_utc s =
     (if s = ''N/A'' then Inr None
      else case strptime (take 19 s) ''%m/%d/%Y %I:%M %p'' of
             Inl e \<Rightarrow> Inl e
           | Inr naive \<Rightarrow>
               (let tz_string = py_strip '' ()'' (drop 19 s)
                in if tz_string = ''ET'' then Inr (Some (system_to_utc naive))
                   else Inl NotImplementedError))"

text \<open>
  \<^verbatim>\<open>Market._update_info\<close>.  The assignments are made one after the other, so an
  exception leaves the fields assigned before it with their new values.
\<close>

definition update_info ::
  "strptime_fn \<Rightarrow> (datetime \<Rightarrow> datetime) \<Rightarrow> market_info response \<Rightarrow> market
     \<Rightarrow> error option \<times> market" where
  "update_info strptime system_to_utc resp m =
     (case raise_for_status resp of
        Inl e \<Rightarrow> (Some e, m)
      | Inr u \<Rightarrow>
          (let mkt_info = json resp;
               m1 = m\<lparr>market_name := marketName mkt_info, market_type := marketType mkt_info\<rparr>
           in case parse_end_date strptime system_to_utc (dateEndString mkt_info) of
                Inl e \<Rightarrow> (Some e, m1)
              | Inr ed \<Rightarrow>
                  (let m2 = m1\<lparr>end_date := ed,
                                is_active := isActive mkt_info,
                                rule := mi_rule mkt_info,
                                have_ownership := userHasOwnership mkt_info,
                                have_trade_history := userHasTradeHistory mkt_info,
                                market_investment := userInvestment mkt_info,
                                max_payout := userMaxPayout mkt_info,
                                info := mi_info mkt_info\<rparr>
                   in case strptime (dateOpened mkt_info) ''%Y-%m-%dT%H:%M:%S.%f'' of
                        Inl e \<Rightarrow> (Some e, m2)
                      | Inr d \<Rightarrow>
                          (None,
                           m2\<lparr>date_opened := d,
                              is_market_watched := isMarketWatched mkt_info,
                              status := mi_status mkt_info,
                              is_open := isOpen mkt_info,
                              is_open_status_message := isOpenStatusMessage mkt_info,
                              is_trading_suspended := isTradingSuspended mkt_info,
                              is_trading_suspended_message :=
                                isTradingSuspendedMessage mkt_info,
                              is_engine_busy := isEngineBusy mkt_info,
                              is_engine_busy_message := isEngineBusyMessage mkt_info\<rparr>))))"

text \<open>\<^verbatim>\<open>Market._update_contracts\<close>\<close>

definition update_contracts ::
  "market_contract list response \<Rightarrow> market \<Rightarrow> error option \<times> market" where
  "update_contracts resp m =
     (case raise_for_status resp of
        Inl e \<Rightarrow> (Some e, m)
      | Inr u \<Rightarrow> (None, m\<lparr>contract_ids := map contractId (json resp)\<rparr>))"

text \<open>
  \<^verbatim>\<open>Market.update_all\<close>.  \<open>fetched\<close> is what \<^verbatim>\<open>concurrent_get\<close> did on the two URLs: it
  raised, or it returned the two responses.  A response with an HTTP error status is a
  response, not an exception of \<^verbatim>\<open>concurrent_get\<close>.
\<close>

definition update_all ::
  "strptime_fn \<Rightarrow> (datetime \<Rightarrow> datetime)
     \<Rightarrow> error + (market_info response \<times> market_contract list response)
     \<Rightarrow> market \<Rightarrow> error option \<times> market" where
  "update_all strptime system_to_utc fetched m =
     (case fetched of
        Inl e \<Rightarrow> (Some e, m)
      | Inr (r0, r1) \<Rightarrow>
          (case update_info strptime system_to_utc r0 m of
             (Some e, m1) \<Rightarrow> (Some e, m1)
           | (None, m1) \<Rightarrow> update_contracts r1 m1))"

text \<open>The fields \<^verbatim>\<open>_update_info\<close> assigns, and the field \<^verbatim>\<open>_update_contracts\<close> assigns.\<close>

definition metadata_fields where
  "metadata_fields m =
     (market_name m, market_type m, end_date m, is_active m, rule m, have_ownership m,
      have_trade_history m, market_investment m, max_payout m, info m, date_opened m,
      is_market_watched m, status m, is_open m, is_open_status_message m,
      is_trading_suspended m, is_trading_suspended_message m, is_engine_busy m,
      is_engine_busy_message m)"

section \<open>Concurrent fetch\<close>

text \<open>
  \<^verbatim>\<open>concurrent_get\<close> submits one call of \<^verbatim>\<open>get\<close> per URL to a thread pool, which gives
  one future per URL, in the order of the URLs, and then reads the futures in that
  order.  A future is a slot: empty until its call has finished, then holding what the
  call returned or raised.  \<open>get i url\<close> is the outcome of the call submitted at position
  \<open>i\<close>.  The order in which the workers finish the calls is the list \<open>completion\<close> of
  positions; a position that is not in it has not finished within the timeout.
\<close>

definition submit_all :: "string list \<Rightarrow> (error + 'r) option list" where
  "submit_all urls = map (\<lambda>url. None) urls"

definition finish ::
  "(nat \<Rightarrow> string \<Rightarrow> error + 'r) \<Rightarrow> string list \<Rightarrow> (error + 'r) option list \<Rightarrow> nat
     \<Rightarrow> (error + 'r) option list" where
  "finish get urls futures i =
     (if i < length urls then futures[i := Some (get i (urls ! i))] else futures)"

definition run_pool ::
  "(nat \<Rightarrow> string \<Rightarrow> error + 'r) \<Rightarrow> string list \<Rightarrow> nat list \<Rightarrow> (error + 'r) option list" where
  "run_pool get urls completion = foldl (finish get urls) (submit_all urls) completion"

text \<open>\<^verbatim>\<open>[f.result(timeout=timeout) for f in futures]\<close>: the first future, in the order of
  the list, that raised or has not finished ends the comprehension with its exception.\<close>

fun results :: "(error + 'r) option list \<Rightarrow> error + 'r list" where
  "results [] = Inr []"
| "results (None # fs) = Inl TimeoutError"
| "results (Some (Inl e) # fs) = Inl e"
| "results (Some (Inr r) # fs) =
     (case results fs of Inl e \<Rightarrow> Inl e | Inr rs \<Rightarrow> Inr (r # rs))"

definition concurrent_get ::
  "(nat \<Rightarrow> string \<Rightarrow> error + 'r) \<Rightarrow> string list \<Rightarrow> nat list \<Rightarrow> error + 'r list" where
  "concurrent_get get urls completion = results (run_pool get urls completion)"

section \<open>List objects and the accessors that return lists\<close>

text \<open>
  A Python \<^verbatim>\<open>list\<close> is an object: an attribute holds a reference to it, and a change
  made through one reference is seen through every other.  The store maps a reference
  to the contents of its list; the references below \<open>used\<close> are the allocated ones.
  \<open>new_list\<close> is the creation of a list object (by \<^verbatim>\<open>.copy()\<close> or by a list
  comprehension); \<open>mutate\<close> is any change in place of the list \<open>r\<close> (\<^verbatim>\<open>append\<close>,
  \<^verbatim>\<open>del\<close>, \<^verbatim>\<open>sort\<close>, item assignment), after which it has some contents \<open>ys\<close>.  The elements
  are \<^verbatim>\<open>int\<close>s, tuples and named tuples, which are immutable.
\<close>

record 'a store =
  cell :: "nat \<Rightarrow> 'a list"
  used :: nat

definition new_list :: "'a list \<Rightarrow> 'a store \<Rightarrow> nat \<times> 'a store" where
  "new_list xs h = (used h, h\<lparr>cell := (cell h)(used h := xs), used := Suc (used h)\<rparr>)"

definition list_copy :: "nat \<Rightarrow> 'a store \<Rightarrow> nat \<times> 'a store" where
  "list_copy a h = new_list (cell h a) h"

definition mutate :: "nat \<Rightarrow> 'a list \<Rightarrow> 'a store \<Rightarrow> 'a store" where
  "mutate r ys h = h\<lparr>cell := (cell h)(r := ys)\<rparr>"

text \<open>The named tuple \<^verbatim>\<open>OwnOrder\<close> of \<^verbatim>\<open>_update_my_orders\<close>.\<close>

record own_order =
  oo_order_id :: int
  oo_contract_id :: int
  oo_price :: rat
  oo_original_quantity :: int
  oo_remaining_quantity :: int
  oo_date_created :: datetime
  oo_is_processed :: bool

text \<open>
  The objects, with a reference where the attribute is a list: \<^verbatim>\<open>Market._contract_ids\<close>,
  \<^verbatim>\<open>Account._my_market_ids\<close> and \<^verbatim>\<open>Account._my_contract_ids\<close>, and the two
  dictionaries of lists \<^verbatim>\<open>Contract._order_book\<close> and \<^verbatim>\<open>Contract._my_orders\<close>.
\<close>

record market_obj =
  contract_ids_ref :: nat

record account_obj =
  my_market_ids_ref :: nat
  my_contract_ids_ref :: nat

record contract_obj =
  order_book_ref :: "int \<rightharpoonup> nat"
  my_orders_ref :: "int \<rightharpoonup> nat"

text \<open>The accessors: each returns the reference of the list it hands out, and the store.\<close>

definition contract_ids_obj :: "market_obj \<Rightarrow> int store \<Rightarrow> error + nat \<times> int store" where
  "contract_ids_obj m h = Inr (list_copy (contract_ids_ref m) h)"

definition my_contract_ids_obj :: "account_obj \<Rightarrow> int store \<Rightarrow> error + nat \<times> int store" where
  "my_contract_ids_obj a h = Inr (list_copy (my_contract_ids_ref a) h)"

definition my_market_ids_obj :: "account_obj \<Rightarrow> int store \<Rightarrow> error + nat \<times> int store" where
  "my_market_ids_obj a h = Inr (list_copy (my_market_ids_ref a) h)"

definition no_asks_obj :: "contract_obj \<Rightarrow> order store \<Rightarrow> error + nat \<times> order store" where
  "no_asks_obj c h =
     (case order_book_ref c 0 of None \<Rightarrow> Inl KeyError
      | Some a \<Rightarrow> Inr (new_list (complement_orders (cell h a)) h))"

definition yes_asks_obj :: "contract_obj \<Rightarrow> order store \<Rightarrow> error + nat \<times> order store" where
  "yes_asks_obj c h =
     (case order_book_ref c 1 of None \<Rightarrow> Inl KeyError | Some a \<Rightarrow> Inr (list_copy a h))"

definition no_bids_obj :: "contract_obj \<Rightarrow> order store \<Rightarrow> error + nat \<times> order store" where
  "no_bids_obj c h =
     (case order_book_ref c 1 of None \<Rightarrow> Inl KeyError
      | Some a \<Rightarrow> Inr (new_list (complement_orders (cell h a)) h))"

definition yes_bids_obj :: "contract_obj \<Rightarrow> order store \<Rightarrow> error + nat \<times> order store" where
  "yes_bids_obj c h =
     (case order_book_ref c 0 of None \<Rightarrow> Inl KeyError | Some a \<Rightarrow> Inr (list_copy a h))"

definition my_no_bids_obj ::
  "contract_obj \<Rightarrow> own_order store \<Rightarrow> error + nat \<times> own_order store" where
  "my_no_bids_obj c h =
     (case my_orders_ref c 0 of None \<Rightarrow> Inl KeyError | Some a \<Rightarrow> Inr (list_copy a h))"

definition my_yes_bids_obj ::
  "contract_obj \<Rightarrow> own_order store \<Rightarrow> error + nat \<times> own_order store" where
  "my_yes_bids_obj c h =
     (case my_orders_ref c 1 of None \<Rightarrow> Inl KeyError | Some a \<Rightarrow> Inr (list_copy a h))"

definition my_no_asks_obj ::
  "contract_obj \<Rightarrow> own_order store \<Rightarrow> error + nat \<times> own_order store" where
  "my_no_asks_obj c h =
     (case my_orders_ref c 2 of None \<Rightarrow> Inl KeyError | Some a \<Rightarrow> Inr (list_copy a h))"

definition my_yes_asks_obj ::
  "contract_obj \<Rightarrow> own_order store \<Rightarrow> error + nat \<times> own_order store" where
  "my_yes_asks_obj c h =
     (case my_orders_ref c 3 of None \<Rightarrow> Inl KeyError | Some a \<Rightarrow> Inr (list_copy a h))"

text \<open>
  What it means that the list an accessor returns is independent of the object's state:
  the accessor returns a list \<open>r\<close>; whatever is done to \<open>r\<close>, every list that existed
  before the call (the lists of the attributes among them) has the contents it had, and
  a second call of the accessor returns a list with the contents the first one had
  when it was returned.
\<close>

definition independent_read :: "('a store \<Rightarrow> error + nat \<times> 'a store) \<Rightarrow> 'a store \<Rightarrow> bool" where
  "independent_read accessor h =
     (case accessor h of
        Inl e \<Rightarrow> False
      | Inr (r, h1) \<Rightarrow>
          (\<forall>ys. (\<forall>a<used h. cell (mutate r ys h1) a = cell h a) \<and>
                (case accessor (mutate r ys h1) of
                   Inl e \<Rightarrow> False
                 | Inr (r2, h2) \<Rightarrow> cell h2 r2 = cell h1 r)))"

section \<open>Sample inputs\<close>

text \<open>A contract in which the user owns five Yes shares bought for 2 dollars in all, and a
  server that accepts every trade.\<close>

definition owns_yes :: contract where
  "owns_yes = \<lparr> contract_id = 7, contract_name = ''X'', order_book = Map.empty,
       my_prediction = Some 1, shares_owned = 5, investment = 2, share_details = [] \<rparr>"

definition ok_server :: "trade_request \<Rightarrow> unit response" where
  "ok_server r = \<lparr> status_code = 200, json = () \<rparr>"

text \<open>An order book with one Yes order and one No order, and an order-book payload whose
  two lists are not sorted.\<close>

definition two_sided :: contract where
  "two_sided = owns_yes\<lparr>order_book := [1 \<mapsto> [(3/10, 5)], 0 \<mapsto> [(3/5, 7)]]\<rparr>"

definition book_response :: "order_book_payload response" where
  "book_response =
     \<lparr> status_code = 200,
       json = \<lparr> yesOrders = [\<lparr>be_pricePerShare = 2/5, be_quantity = 1\<rparr>,
                             \<lparr>be_pricePerShare = 3/10, be_quantity = 5\<rparr>],
                noOrders = [\<lparr>be_pricePerShare = 3/5, be_quantity = 7\<rparr>,
                            \<lparr>be_pricePerShare = 1/2, be_quantity = 2\<rparr>] \<rparr> \<rparr>"

text \<open>What \<open>strptime\<close> returns on the date strings of the sample payloads.\<close>

definition sample_strptime :: strptime_fn where
  "sample_strptime d fmt =
     (if d = ''2024-01-05T10:00:00'' \<and> fmt = ''%Y-%m-%dT%H:%M:%S''
        then Inr \<lparr> year = 2024, month = 1, day = 5, hour = 10, minute = 0, second = 0,
                   microsecond = 0 \<rparr>
      else if d = ''2024-01-06T11:30:00.5'' \<and> fmt = ''%Y-%m-%dT%H:%M:%S.%f''
        then Inr \<lparr> year = 2024, month = 1, day = 6, hour = 11, minute = 30, second = 0,
                   microsecond = 500000 \<rparr>
      else if d = ''03/01/2024 09:00 PM'' \<and> fmt = ''%m/%d/%Y %I:%M %p''
        then Inr \<lparr> year = 2024, month = 3, day = 1, hour = 21, minute = 0, second = 0,
                   microsecond = 0 \<rparr>
      else Inl StrptimeError)"

text \<open>A Shares payload with two records, the first of Yes shares; one with no record; the
  contract after an update from each.\<close>

definition shares_response :: "shares_info response" where
  "shares_response =
     \<lparr> status_code = 200,
       json = \<lparr> contractName = ''Y'',
                shares = [\<lparr> predictionType = 1, sharesOwned = 3, pricePerShare = 2/5,
                            dateExecuted = ''2024-01-05T10:00:00'' \<rparr>,
                          \<lparr> predictionType = 0, sharesOwned = 2, pricePerShare = 1/2,
                            dateExecuted = ''2024-01-06T11:30:00.5'' \<rparr>] \<rparr> \<rparr>"

definition no_shares_response :: "shares_info response" where
  "no_shares_response = \<lparr> status_code = 200, json = \<lparr> contractName = ''Y'', shares = [] \<rparr> \<rparr>"

definition after_shares :: contract where
  "after_shares =
     \<lparr> contract_id = 7, contract_name = ''Y'', order_book = Map.empty,
       my_prediction = Some 1, shares_owned = 5, investment = 11/5,
       share_details =
         [\<lparr> s_predictionType = 1, s_sharesOwned = 3, s_pricePerShare = 2/5,
            s_dateExecuted = \<lparr> year = 2024, month = 1, day = 5, hour = 10, minute = 0,
                               second = 0, microsecond = 0 \<rparr> \<rparr>,
          \<lparr> s_predictionType = 0, s_sharesOwned = 2, s_pricePerShare = 1/2,
            s_dateExecuted = \<lparr> year = 2024, month = 1, day = 6, hour = 11, minute = 30,
                               second = 0, microsecond = 500000 \<rparr> \<rparr>] \<rparr>"

definition no_shares :: contract where
  "no_shares = owns_yes\<lparr>contract_name := ''Y'', my_prediction := None, shares_owned := 0,
                        investment := 0, share_details := []\<rparr>"

text \<open>A machine whose system timezone is UTC: a civil time of the system's timezone is
  the UTC civil time of the same instant.\<close>

definition system_utc :: "datetime \<Rightarrow> datetime" where
  "system_utc d = d"

text \<open>A market, an info payload with an end date in ET, responses with and without an HTTP
  error, and the market after an info update from the payload.\<close>

definition market0 :: market where
  "market0 =
     \<lparr> market_id = 3, market_name = ''Old name'', market_type = 0, end_date = None,
       is_active = True, rule = ''r'', have_ownership = False, have_trade_history = False,
       market_investment = 0, max_payout = 0, info = None,
       date_opened = \<lparr> year = 2023, month = 12, day = 1, hour = 0, minute = 0, second = 0,
                       microsecond = 0 \<rparr>,
       is_market_watched = False, status = ''Open'', is_open = True,
       is_open_status_message = None, is_trading_suspended = False,
       is_trading_suspended_message = None, is_engine_busy = False,
       is_engine_busy_message = None, contract_ids = [11, 12] \<rparr>"

definition info_payload :: market_info where
  "info_payload =
     \<lparr> marketName = ''New name'', marketType = 3,
       dateEndString = ''03/01/2024 09:00 PM (ET)'', isActive = True, mi_rule = ''r2'',
       userHasOwnership = True, userHasTradeHistory = True, userInvestment = 10,
       userMaxPayout = 20, mi_info = None, dateOpened = ''2024-01-06T11:30:00.5'',
       isMarketWatched = True, mi_status = ''Open'', isOpen = True,
       isOpenStatusMessage = None, isTradingSuspended = False,
       isTradingSuspendedMessage = None, isEngineBusy = False,
       isEngineBusyMessage = None \<rparr>"

definition info_response :: "market_info response" where
  "info_response = \<lparr> status_code = 200, json = info_payload \<rparr>"

definition failed_contracts_response :: "market_contract list response" where
  "failed_contracts_response = \<lparr> status_code = 500, json = [] \<rparr>"

definition contracts_response :: "market_contract list response" where
  "contracts_response =
     \<lparr> status_code = 200, json = [\<lparr> contractId = 21 \<rparr>, \<lparr> contractId = 22 \<rparr>] \<rparr>"

definition failed_info_response :: "market_info response" where
  "failed_info_response = \<lparr> status_code = 503, json = info_payload \<rparr>"

definition market1 :: market where
  "market1 =
     \<lparr> market_id = 3, market_name = ''New name'', market_type = 3,
       end_date = Some \<lparr> year = 2024, month = 3, day = 1, hour = 21, minute = 0, second = 0,
                         microsecond = 0 \<rparr>,
       is_active = True, rule = ''r2'', have_ownership = True, have_trade_history = True,
       market_investment = 10, max_payout = 20, info = None,
       date_opened = \<lparr> year = 2024, month = 1, day = 6, hour = 11, minute = 30, second = 0,
                       microsecond = 500000 \<rparr>,
       is_market_watched = True, status = ''Open'', is_open = True,
       is_open_status_message = None, is_trading_suspended = False,
       is_trading_suspended_message = None, is_engine_busy = False,
       is_engine_busy_message = None, contract_ids = [11, 12] \<rparr>"

text \<open>A \<^verbatim>\<open>get\<close> whose response to the call at position \<open>i\<close> for \<open>url\<close> is the pair of both.\<close>

definition echo_get :: "nat \<Rightarrow> string \<Rightarrow> error + (nat \<times> string)" where
  "echo_get i url = Inr (i, url)"

text \<open>Stores with the lists of a market, an account and a contract, and the objects that
  refer to them.\<close>

definition ids_store :: "int store" where
  "ids_store = \<lparr> cell = (\<lambda>a. [])(0 := [11, 12], 1 := [3], 2 := [21, 22]), used = 3 \<rparr>"

definition sample_market_obj :: market_obj where
  "sample_market_obj = \<lparr> contract_ids_ref = 0 \<rparr>"

definition sample_account_obj :: account_obj where
  "sample_account_obj = \<lparr> my_market_ids_ref = 1, my_contract_ids_ref = 2 \<rparr>"

definition book_store :: "order store" where
  "book_store = \<lparr> cell = (\<lambda>a. [])(0 := [(3/10, 5)], 1 := [(3/5, 7)]), used = 2 \<rparr>"

definition own_store :: "own_order store" where
  "own_store = \<lparr> cell = (\<lambda>a. []), used = 4 \<rparr>"

definition sample_contract_obj :: contract_obj where
  "sample_contract_obj =
     \<lparr> order_book_ref = [1 \<mapsto> 0, 0 \<mapsto> 1],
       my_orders_ref = [0 \<mapsto> 0, 1 \<mapsto> 1, 2 \<mapsto> 2, 3 \<mapsto> 3] \<rparr>"

text \<open>An order book with three Yes orders.\<close>

definition three_yes :: contract where
  "three_yes = owns_yes\<lparr>order_book := [1 \<mapsto> [(3/10, 5), (2/5, 1), (1/2, 4)], 0 \<mapsto> [(3/5, 7)]]\<rparr>"

section \<open>Properties\<close>

subsection \<open>Order validation\<close>

text \<open>
  The five checks of the specification, for a trade type given as the \<^verbatim>\<open>int\<close> \<open>t\<close>.
\<close>

lemma post_order_int_reaches_post:
  "snd (post_order server c (PInt t) price quantity sess) \<noteq> sess \<longleftrightarrow>
     1 \<le> py_int (100 * price) \<and> py_int (100 * price) \<le> 99
     \<and> (case quantity of PStr s \<Rightarrow> False | PInt q \<Rightarrow>
           0 < q
         \<and> (case my_prediction c of None \<Rightarrow> True
             | Some p \<Rightarrow> if p \<noteq> 0 then t \<notin> {0, 2} else t \<notin> {1, 3})
         \<and> (t \<in> {2, 3} \<longrightarrow> q \<le> shares_owned c)
         \<and> (t \<in> {0, 1} \<longrightarrow> price * of_int q + investment c \<le> 850))"
  by (auto simp add: post_order_def in_pair_def Let_def
        split: pyval.splits sum.splits option.splits)

text \<open>
  With a trade type that is a \<^verbatim>\<open>str\<close>, as the public methods pass it, no membership test
  of \<^verbatim>\<open>_post_order\<close> holds: only the checks of the price and of the quantity are left.
\<close>

lemma post_order_str_trade_type:
  "post_order server c (PStr s) price quantity sess =
     (if \<not> (1 \<le> py_int (100 * price) \<and> py_int (100 * price) \<le> 99)
        then (Inl PriceRangeError, sess)
      else case quantity of
        PStr x \<Rightarrow> (Inl QuantityTypeError, sess)
      | PInt q \<Rightarrow>
          if q \<le> 0 then (Inl QuantityNotPositive, sess)
          else
            (let data = \<lparr> req_pricePerShare = str_int (py_int (100 * price)),
                          req_quantity = str_int q,
                          req_contractId = str_int (contract_id c),
                          req_tradeType = s \<rparr>
             in case raise_for_status (server data) of
                  Inl e \<Rightarrow> (Inl e, sess @ [data])
                | Inr u \<Rightarrow> (Inr (server data), sess @ [data])))"
  by (simp add: post_order_def in_pair_def Let_def split: pyval.splits)

text \<open>
  C1.  The claim is that an order placed through \<^verbatim>\<open>buy_no\<close>, \<^verbatim>\<open>buy_yes\<close>, \<^verbatim>\<open>sell_no\<close> or
  \<^verbatim>\<open>sell_yes\<close> reaches the POST only if all five checks pass.  The code posts these three
  orders of a user who owns five Yes shares: a purchase of No shares (check 3), a sale
  of ten shares (check 4), and a purchase that brings the investment to 1002 dollars
  (check 5).
\<close>

theorem public_trade_methods_skip_checks:
  "buy_no ok_server owns_yes (1/2) (PInt 3) [] =
     (Inr \<lparr> status_code = 200, json = () \<rparr>,
      [\<lparr> req_pricePerShare = ''50'', req_quantity = ''3'', req_contractId = ''7'',
         req_tradeType = ''0'' \<rparr>])
   \<and> sell_yes ok_server owns_yes (1/2) (PInt 10) [] =
     (Inr \<lparr> status_code = 200, json = () \<rparr>,
      [\<lparr> req_pricePerShare = ''50'', req_quantity = ''10'', req_contractId = ''7'',
         req_tradeType = ''3'' \<rparr>])
   \<and> buy_yes ok_server owns_yes (1/2) (PInt 2000) [] =
     (Inr \<lparr> status_code = 200, json = () \<rparr>,
      [\<lparr> req_pricePerShare = ''50'', req_quantity = ''2000'', req_contractId = ''7'',
         req_tradeType = ''1'' \<rparr>])"
  by (simp add: buy_no_def sell_yes_def buy_yes_def post_order_str_trade_type py_int_def
        raise_for_status_def ok_server_def owns_yes_def str_int_def str_nat.simps)

subsection \<open>Order book views\<close>

text \<open>
  C2, as the specification states it: \<^verbatim>\<open>no_asks\<close> would be the complemented Yes side and
  \<^verbatim>\<open>no_bids\<close> the complemented No side.  On a book with the Yes order (3/10, 5) and the
  No order (3/5, 7) the code returns the complement of the other side for each.
\<close>

theorem order_book_views_counterexample:
  "order_book two_sided 1 = Some [(3/10, 5)]
   \<and> order_book two_sided 0 = Some [(3/5, 7)]
   \<and> no_asks two_sided = Inr [(2/5, 7)]
   \<and> no_asks two_sided \<noteq> Inr (complement_orders [(3/10, 5)])
   \<and> no_bids two_sided = Inr [(7/10, 5)]
   \<and> no_bids two_sided \<noteq> Inr (complement_orders [(3/5, 7)])"
  by (simp add: two_sided_def no_asks_def no_bids_def complement_orders_def)

text \<open>
  C2, amended: \<^verbatim>\<open>yes_asks\<close> is the canonical Yes side and \<^verbatim>\<open>yes_bids\<close> the canonical No
  side, both unchanged; \<^verbatim>\<open>no_asks\<close> is the canonical No side and \<^verbatim>\<open>no_bids\<close> the canonical
  Yes side, each with every price \<open>p\<close> replaced by \<open>1 - p\<close> and the quantities unchanged.
\<close>

theorem order_book_views:
  assumes "order_book c 1 = Some ys" and "order_book c 0 = Some ns"
  shows "yes_asks c = Inr ys \<and> yes_bids c = Inr ns
         \<and> no_asks c = Inr (map (\<lambda>(p, q). (1 - p, q)) ns)
         \<and> no_bids c = Inr (map (\<lambda>(p, q). (1 - p, q)) ys)"
  using assms
  by (simp add: yes_asks_def yes_bids_def no_asks_def no_bids_def complement_orders_def)

theorem order_book_views_witness:
  "order_book two_sided 1 = Some [(3/10, 5)] \<and> order_book two_sided 0 = Some [(3/5, 7)]
   \<and> yes_asks two_sided = Inr [(3/10, 5)] \<and> yes_bids two_sided = Inr [(3/5, 7)]
   \<and> no_asks two_sided = Inr [(2/5, 7)] \<and> no_bids two_sided = Inr [(7/10, 5)]"
proof -
  have y: "order_book two_sided 1 = Some [(3/10, 5)]" by (simp add: two_sided_def)
  have n: "order_book two_sided 0 = Some [(3/5, 7)]" by (simp add: two_sided_def)
  show ?thesis using y n order_book_views [OF y n] by simp
qed

text \<open>
  C4.  For every canonical Yes side \<open>L\<close>, \<^verbatim>\<open>no_bids\<close> returns the list that has
  \<open>(1 - p, q)\<close> at position \<open>i\<close> when \<open>L\<close> has \<open>(p, q)\<close> there: the same length, the same order.
\<close>

theorem no_bids_of_yes_side:
  assumes "order_book c 1 = Some L"
  shows "\<exists>v. no_bids c = Inr v \<and> v = map (\<lambda>(p, q). (1 - p, q)) L \<and> length v = length L
             \<and> (\<forall>i<length L. v ! i = (1 - fst (L ! i), snd (L ! i)))"
  using assms by (simp add: no_bids_def complement_orders_def case_prod_unfold)

theorem no_bids_of_yes_side_witness:
  "order_book three_yes 1 = Some [(3/10, 5), (2/5, 1), (1/2, 4)]
   \<and> (\<exists>v. no_bids three_yes = Inr v \<and> v = [(7/10, 5), (3/5, 1), (1/2, 4)] \<and> length v = 3
           \<and> v ! 0 = (1 - 3/10, 5) \<and> v ! 1 = (1 - 2/5, 1) \<and> v ! 2 = (1 - 1/2, 4))"
proof -
  have y: "order_book three_yes 1 = Some [(3/10, 5), (2/5, 1), (1/2, 4)]"
    by (simp add: three_yes_def)
  from no_bids_of_yes_side [OF y] obtain v where v: "no_bids three_yes = Inr v"
    "v = map (\<lambda>(p, q). (1 - p, q)) [(3/10 :: rat, 5 :: int), (2/5, 1), (1/2, 4)]"
    by blast
  from v(2) have "v = [(7/10, 5), (3/5, 1), (1/2, 4)]" by simp
  with v(1) y show ?thesis by simp
qed

subsection \<open>Order of the book after an update\<close>

lemma sorted_fst_of_sorted:
  fixes xs :: "('a::linorder \<times> 'b::linorder) list"
  shows "sorted xs \<Longrightarrow> sorted (map fst xs)"
  by (induction xs) (auto simp: less_eq_prod_def)

lemma fst_complement_orders: "map fst (complement_orders xs) = map (\<lambda>p. 1 - p) (map fst xs)"
  by (simp add: complement_orders_def case_prod_unfold)

lemma sorted_rev_complement:
  fixes ps :: "rat list"
  shows "sorted ps \<Longrightarrow> sorted (rev (map (\<lambda>p. 1 - p) ps))"
  by (induction ps) (auto simp: sorted_append)

lemma complement_descending:
  "sorted xs \<Longrightarrow> sorted (rev (map fst (complement_orders xs)))"
  unfolding fst_complement_orders
  by (rule sorted_rev_complement) (rule sorted_fst_of_sorted)

lemma update_order_book_ok:
  "raise_for_status resp = Inr () \<Longrightarrow>
   update_order_book resp c =
     (None, c\<lparr>order_book :=
        [1 \<mapsto> sort (map (\<lambda>n. (be_pricePerShare n, be_quantity n)) (yesOrders (json resp))),
         0 \<mapsto> sort (map (\<lambda>n. (be_pricePerShare n, be_quantity n)) (noOrders (json resp)))]\<rparr>)"
  by (simp add: update_order_book_def Let_def fun_upd_twist)

lemma update_order_book_failed:
  "raise_for_status resp = Inl e \<Longrightarrow> update_order_book resp c = (Some e, c)"
  by (simp add: update_order_book_def)

text \<open>
  C5, as the specification states it, has \<^verbatim>\<open>no_bids\<close> ascending by price.  After the
  update from a payload with the Yes orders (2/5, 1) and (3/10, 5), the Yes side is
  sorted and \<^verbatim>\<open>no_bids\<close> has the prices 7/10, 3/5: descending.
\<close>

theorem no_bids_ascending_counterexample:
  "fst (update_order_book book_response owns_yes) = None
   \<and> order_book (snd (update_order_book book_response owns_yes)) 1 = Some [(3/10, 5), (2/5, 1)]
   \<and> no_bids (snd (update_order_book book_response owns_yes)) = Inr [(7/10, 5), (3/5, 1)]
   \<and> \<not> sorted (map fst [(7/10 :: rat, 5 :: int), (3/5, 1)])"
  by code_simp

text \<open>
  C5, amended: after every order-book update whose response is not an HTTP error,
  whatever the order of the payload, the canonical Yes and No sides hold the orders of
  the payload sorted ascending by price; \<^verbatim>\<open>yes_asks\<close> is ascending by price (lowest ask
  first) and \<^verbatim>\<open>no_bids\<close> is descending by price (highest bid first).
\<close>

theorem update_order_book_sorted:
  assumes "raise_for_status resp = Inr ()"
  shows "\<exists>c' ys ns. update_order_book resp c = (None, c')
           \<and> order_book c' 1 = Some ys \<and> order_book c' 0 = Some ns
           \<and> mset ys = mset (map (\<lambda>n. (be_pricePerShare n, be_quantity n)) (yesOrders (json resp)))
           \<and> mset ns = mset (map (\<lambda>n. (be_pricePerShare n, be_quantity n)) (noOrders (json resp)))
           \<and> sorted (map fst ys) \<and> sorted (map fst ns)
           \<and> yes_asks c' = Inr ys
           \<and> no_bids c' = Inr (complement_orders ys)
           \<and> sorted (rev (map fst (complement_orders ys)))"
  unfolding update_order_book_ok [OF assms]
  by (simp add: yes_asks_def no_bids_def sorted_fst_of_sorted complement_descending
        del: map_map)

theorem update_order_book_sorted_witness:
  "raise_for_status book_response = Inr ()
   \<and> (\<exists>c' ys ns. update_order_book book_response owns_yes = (None, c')
           \<and> order_book c' 1 = Some ys \<and> order_book c' 0 = Some ns
           \<and> mset ys = mset (map (\<lambda>n. (be_pricePerShare n, be_quantity n))
                              (yesOrders (json book_response)))
           \<and> mset ns = mset (map (\<lambda>n. (be_pricePerShare n, be_quantity n))
                              (noOrders (json book_response)))
           \<and> sorted (map fst ys) \<and> sorted (map fst ns)
           \<and> yes_asks c' = Inr ys
           \<and> no_bids c' = Inr (complement_orders ys)
           \<and> sorted (rev (map fst (complement_orders ys))))"
proof -
  have h: "raise_for_status book_response = Inr ()"
    by (simp add: book_response_def raise_for_status_def)
  show ?thesis by (rule conjI [OF h update_order_book_sorted [OF h]])
qed

subsection \<open>Owned shares\<close>

lemma shares_loop_sums:
  "shares_loop sp ss c = (Inr ps, c') \<Longrightarrow>
     shares_owned c' = shares_owned c + sum_list (map sharesOwned ss)
     \<and> investment c' = investment c
           + sum_list (map (\<lambda>s. pricePerShare s * of_int (sharesOwned s)) ss)
     \<and> my_prediction c' = my_prediction c
     \<and> length ps = length ss"
proof (induction ss arbitrary: c ps c')
  case Nil
  then show ?case by simp
next
  case (Cons s ss)
  then show ?case
    by (auto simp: Let_def split: sum.splits prod.splits)
qed

lemma shares_loop_total:
  "\<forall>s\<in>set ss. \<exists>d. sp (dateExecuted s) (date_format (dateExecuted s)) = Inr d \<Longrightarrow>
     \<exists>ps c'. shares_loop sp ss c = (Inr ps, c')"
proof (induction ss arbitrary: c)
  case Nil
  then show ?case by simp
next
  case (Cons s ss)
  from Cons.prems obtain d where d: "sp (dateExecuted s) (date_format (dateExecuted s)) = Inr d"
    by auto
  let ?c2 = "c\<lparr>shares_owned := shares_owned c + sharesOwned s,
               investment := investment c + pricePerShare s * of_int (sharesOwned s)\<rparr>"
  from Cons.prems have "\<forall>s\<in>set ss. \<exists>d. sp (dateExecuted s) (date_format (dateExecuted s)) = Inr d"
    by simp
  from Cons.IH [where c = ?c2, OF this] obtain ps c' where "shares_loop sp ss ?c2 = (Inr ps, c')"
    by blast
  with d show ?case by (simp add: Let_def)
qed

lemma update_shares_ok:
  "raise_for_status resp = Inr () \<Longrightarrow>
   update_shares sp resp c =
     (case shares_loop sp (shares (json resp)) (after_reset (json resp) c) of
        (Inl e, c4) \<Rightarrow> (Some e, c4)
      | (Inr ps, c4) \<Rightarrow> (None, c4\<lparr>share_details := ps\<rparr>))"
  by (simp add: update_shares_def after_reset_def Let_def)

lemma update_shares_failed:
  "raise_for_status resp = Inl e \<Longrightarrow> update_shares sp resp c = (Some e, c)"
  by (simp add: update_shares_def)

lemma after_reset_fields:
  "shares_owned (after_reset si c) = 0" "investment (after_reset si c) = 0"
  "my_prediction (after_reset si c) =
     (case shares si of [] \<Rightarrow> None | s # ss \<Rightarrow> Some (predictionType s))"
  by (simp_all add: after_reset_def split: list.splits)

text \<open>
  C9.  After a shares update that raised nothing, \<^verbatim>\<open>my_prediction\<close> is \<^verbatim>\<open>None\<close> iff the
  list of share records is empty and is otherwise the \<^verbatim>\<open>predictionType\<close> of the first
  record; \<^verbatim>\<open>shares_owned\<close> is the sum of \<^verbatim>\<open>sharesOwned\<close> and \<^verbatim>\<open>investment\<close> the sum of
  \<^verbatim>\<open>pricePerShare * sharesOwned\<close> over all records.  The update raises nothing when the
  response is not an HTTP error and every date parses.
\<close>

theorem update_shares_position:
  "(update_shares sp resp c = (None, c') \<longrightarrow>
      (my_prediction c' = None \<longleftrightarrow> shares (json resp) = [])
      \<and> my_prediction c' =
          (case shares (json resp) of [] \<Rightarrow> None | s # ss \<Rightarrow> Some (predictionType s))
      \<and> shares_owned c' = sum_list (map sharesOwned (shares (json resp)))
      \<and> investment c' =
          sum_list (map (\<lambda>s. pricePerShare s * of_int (sharesOwned s)) (shares (json resp))))
   \<and> (raise_for_status resp = Inr ()
        \<and> (\<forall>s\<in>set (shares (json resp)).
              \<exists>d. sp (dateExecuted s) (date_format (dateExecuted s)) = Inr d)
      \<longrightarrow> fst (update_shares sp resp c) = None)"
proof (intro conjI impI)
  assume u: "update_shares sp resp c = (None, c')"
  have ok: "raise_for_status resp = Inr ()"
  proof (cases "raise_for_status resp")
    case (Inl e)
    with u show ?thesis by (simp add: update_shares_failed)
  next
    case (Inr x)
    then show ?thesis by simp
  qed
  obtain r c4 where l: "shares_loop sp (shares (json resp)) (after_reset (json resp) c) = (r, c4)"
    by (cases "shares_loop sp (shares (json resp)) (after_reset (json resp) c)")
  from u obtain ps where r: "r = Inr ps" and c': "c' = c4\<lparr>share_details := ps\<rparr>"
    unfolding update_shares_ok [OF ok] l by (cases r) auto
  from shares_loop_sums [OF l [unfolded r]] c'
  have own: "shares_owned c' = sum_list (map sharesOwned (shares (json resp)))"
    and inv: "investment c' =
          sum_list (map (\<lambda>s. pricePerShare s * of_int (sharesOwned s)) (shares (json resp)))"
    and pred: "my_prediction c' =
          (case shares (json resp) of [] \<Rightarrow> None | s # ss \<Rightarrow> Some (predictionType s))"
    by (simp_all add: after_reset_fields)
  from pred show "my_prediction c' =
          (case shares (json resp) of [] \<Rightarrow> None | s # ss \<Rightarrow> Some (predictionType s))" .
  from pred show "my_prediction c' = None \<longleftrightarrow> shares (json resp) = []"
    by (simp split: list.splits)
  from own show "shares_owned c' = sum_list (map sharesOwned (shares (json resp)))" .
  from inv show "investment c' =
          sum_list (map (\<lambda>s. pricePerShare s * of_int (sharesOwned s)) (shares (json resp)))" .
next
  assume a: "raise_for_status resp = Inr ()
        \<and> (\<forall>s\<in>set (shares (json resp)).
              \<exists>d. sp (dateExecuted s) (date_format (dateExecuted s)) = Inr d)"
  then have ok: "raise_for_status resp = Inr ()" and
    all: "\<forall>s\<in>set (shares (json resp)).
              \<exists>d. sp (dateExecuted s) (date_format (dateExecuted s)) = Inr d"
    by simp_all
  obtain ps c4 where
    l: "shares_loop sp (shares (json resp)) (after_reset (json resp) c) = (Inr ps, c4)"
    using shares_loop_total [where sp = sp and ss = "shares (json resp)", OF all] by blast
  show "fst (update_shares sp resp c) = None"
    unfolding update_shares_ok [OF ok] l by simp
qed

lemma update_shares_sample:
  "update_shares sample_strptime shares_response owns_yes = (None, after_shares)"
  by (simp add: update_shares_def shares_response_def raise_for_status_def owns_yes_def
        after_shares_def sample_strptime_def date_format_def Let_def)

theorem update_shares_position_witness:
  "update_shares sample_strptime shares_response owns_yes = (None, after_shares)
   \<and> my_prediction after_shares = Some 1
   \<and> shares_owned after_shares = 5
   \<and> investment after_shares = 11/5
   \<and> raise_for_status shares_response = Inr ()
   \<and> length (shares (json shares_response)) = 2
   \<and> sample_strptime ''2024-01-05T10:00:00'' (date_format ''2024-01-05T10:00:00'')
       = Inr \<lparr> year = 2024, month = 1, day = 5, hour = 10, minute = 0, second = 0,
               microsecond = 0 \<rparr>
   \<and> sample_strptime ''2024-01-06T11:30:00.5'' (date_format ''2024-01-06T11:30:00.5'')
       = Inr \<lparr> year = 2024, month = 1, day = 6, hour = 11, minute = 30, second = 0,
               microsecond = 500000 \<rparr>
   \<and> fst (update_shares sample_strptime shares_response owns_yes) = None"
proof -
  have u: "update_shares sample_strptime shares_response owns_yes = (None, after_shares)"
    by (rule update_shares_sample)
  have ok: "raise_for_status shares_response = Inr ()"
    by (simp add: shares_response_def raise_for_status_def)
  have dates: "\<forall>s\<in>set (shares (json shares_response)).
         \<exists>d. sample_strptime (dateExecuted s) (date_format (dateExecuted s)) = Inr d"
    by (simp add: shares_response_def sample_strptime_def date_format_def)
  have sh: "shares (json shares_response) =
              [\<lparr> predictionType = 1, sharesOwned = 3, pricePerShare = 2/5,
                 dateExecuted = ''2024-01-05T10:00:00'' \<rparr>,
               \<lparr> predictionType = 0, sharesOwned = 2, pricePerShare = 1/2,
                 dateExecuted = ''2024-01-06T11:30:00.5'' \<rparr>]"
    by (simp add: shares_response_def)
  have parsed:
    "sample_strptime ''2024-01-05T10:00:00'' (date_format ''2024-01-05T10:00:00'')
       = Inr \<lparr> year = 2024, month = 1, day = 5, hour = 10, minute = 0, second = 0,
               microsecond = 0 \<rparr>"
    "sample_strptime ''2024-01-06T11:30:00.5'' (date_format ''2024-01-06T11:30:00.5'')
       = Inr \<lparr> year = 2024, month = 1, day = 6, hour = 11, minute = 30, second = 0,
               microsecond = 500000 \<rparr>"
    by (simp_all add: sample_strptime_def date_format_def)
  from update_shares_position [of sample_strptime shares_response owns_yes after_shares]
       u ok dates
  have "my_prediction after_shares = Some 1 \<and> shares_owned after_shares = 5
        \<and> investment after_shares = 11/5
        \<and> fst (update_shares sample_strptime shares_response owns_yes) = None"
    by (simp add: sh)
  with u ok parsed show ?thesis by (simp add: sh)
qed

text \<open>
  C8.  \<^verbatim>\<open>mean_price_per_share\<close> divides without a guard: with no share owned it raises
  the division error, with a positive number of shares it is the investment divided
  by the number of shares; and an update from a payload with an empty share list
  leaves the contract with no share and no investment, where the property raises.
\<close>

theorem mean_price_per_share_division:
  "(shares_owned c0 = 0 \<longrightarrow> mean_price_per_share c0 = Inl ZeroDivisionError)
   \<and> (0 < shares_owned c1 \<longrightarrow>
        mean_price_per_share c1 = Inr (investment c1 / of_int (shares_owned c1)))
   \<and> (raise_for_status resp = Inr () \<and> shares (json resp) = [] \<longrightarrow>
        (\<exists>c'. update_shares sp resp c = (None, c') \<and> shares_owned c' = 0
              \<and> investment c' = 0 \<and> mean_price_per_share c' = Inl ZeroDivisionError))"
  by (simp add: mean_price_per_share_def update_shares_def Let_def)

theorem mean_price_per_share_division_witness:
  "shares_owned no_shares = 0
   \<and> mean_price_per_share no_shares = Inl ZeroDivisionError
   \<and> 0 < shares_owned owns_yes
   \<and> mean_price_per_share owns_yes = Inr (2/5)
   \<and> raise_for_status no_shares_response = Inr ()
   \<and> shares (json no_shares_response) = []
   \<and> (\<exists>c'. update_shares sample_strptime no_shares_response owns_yes = (None, c')
           \<and> shares_owned c' = 0 \<and> investment c' = 0
           \<and> mean_price_per_share c' = Inl ZeroDivisionError)"
proof -
  have z: "shares_owned no_shares = 0" by (simp add: no_shares_def)
  have p: "0 < shares_owned owns_yes" by (simp add: owns_yes_def)
  have ok: "raise_for_status no_shares_response = Inr () \<and> shares (json no_shares_response) = []"
    by (simp add: no_shares_response_def raise_for_status_def)
  have v: "investment owns_yes / of_int (shares_owned owns_yes) = 2/5"
    by (simp add: owns_yes_def)
  from mean_price_per_share_division
         [of no_shares owns_yes no_shares_response sample_strptime owns_yes] z p ok v
  show ?thesis by simp
qed

subsection \<open>Market updates\<close>

lemma parse_end_date_sample:
  "parse_end_date sample_strptime system_utc ''03/01/2024 09:00 PM (ET)'' =
     Inr (Some \<lparr> year = 2024, month = 3, day = 1, hour = 21, minute = 0, second = 0,
                 microsecond = 0 \<rparr>)"
  by (simp add: parse_end_date_def sample_strptime_def system_utc_def py_strip_def)

lemma update_info_sample:
  "update_info sample_strptime system_utc info_response market0 = (None, market1)"
  by (simp add: update_info_def info_response_def info_payload_def raise_for_status_def
        parse_end_date_sample sample_strptime_def market0_def market1_def Let_def)

lemma update_info_failed:
  "raise_for_status resp = Inl e \<Longrightarrow> update_info sp sys resp m = (Some e, m)"
  by (simp add: update_info_def)

lemma update_contracts_failed:
  "raise_for_status resp = Inl e \<Longrightarrow> update_contracts resp m = (Some e, m)"
  by (simp add: update_contracts_def)

lemma update_contracts_ok:
  "raise_for_status resp = Inr () \<Longrightarrow>
   update_contracts resp m = (None, m\<lparr>contract_ids := map contractId (json resp)\<rparr>)"
  by (simp add: update_contracts_def)

lemma update_info_contract_ids:
  "contract_ids (snd (update_info sp sys resp m)) = contract_ids m"
  by (simp add: update_info_def Let_def split: sum.splits)

lemma parse_end_date_NA: "parse_end_date sp sys ''N/A'' = Inr None"
  by (simp add: parse_end_date_def)

lemma parse_end_date_ET:
  "s \<noteq> ''N/A'' \<Longrightarrow> sp (take 19 s) ''%m/%d/%Y %I:%M %p'' = Inr d \<Longrightarrow>
   py_strip '' ()'' (drop 19 s) = ''ET'' \<Longrightarrow>
   parse_end_date sp sys s = Inr (Some (sys d))"
  by (simp add: parse_end_date_def)

lemma parse_end_date_other:
  "s \<noteq> ''N/A'' \<Longrightarrow> sp (take 19 s) ''%m/%d/%Y %I:%M %p'' = Inr d \<Longrightarrow>
   py_strip '' ()'' (drop 19 s) \<noteq> ''ET'' \<Longrightarrow>
   parse_end_date sp sys s = Inl NotImplementedError"
  by (simp add: parse_end_date_def)

lemma update_info_end_date_error:
  "raise_for_status resp = Inr () \<Longrightarrow>
   parse_end_date sp sys (dateEndString (json resp)) = Inl e \<Longrightarrow>
   update_info sp sys resp m =
     (Some e, m\<lparr>market_name := marketName (json resp), market_type := marketType (json resp)\<rparr>)"
  by (simp add: update_info_def Let_def)

lemma update_info_ok:
  assumes "raise_for_status resp = Inr ()"
    and "parse_end_date sp sys (dateEndString (json resp)) = Inr ed"
    and "sp (dateOpened (json resp)) ''%Y-%m-%dT%H:%M:%S.%f'' = Inr d"
  shows "\<exists>m'. update_info sp sys resp m = (None, m')
           \<and> metadata_fields m' =
               (marketName (json resp), marketType (json resp), ed, isActive (json resp),
                mi_rule (json resp), userHasOwnership (json resp),
                userHasTradeHistory (json resp), userInvestment (json resp),
                userMaxPayout (json resp), mi_info (json resp), d,
                isMarketWatched (json resp), mi_status (json resp), isOpen (json resp),
                isOpenStatusMessage (json resp), isTradingSuspended (json resp),
                isTradingSuspendedMessage (json resp), isEngineBusy (json resp),
                isEngineBusyMessage (json resp))
           \<and> contract_ids m' = contract_ids m \<and> market_id m' = market_id m"
  using assms by (simp add: update_info_def Let_def metadata_fields_def)

lemma market_eqI:
  "metadata_fields a = metadata_fields b \<Longrightarrow> market_id a = market_id b \<Longrightarrow>
   contract_ids a = contract_ids b \<Longrightarrow> a = (b :: market)"
  by (cases a, cases b) (simp add: metadata_fields_def)

text \<open>
  C3, as the specification states it: when the second (contracts) response of a
  refresh-all is a failure, the metadata fields would keep their values.  With an info
  response that is fine and a contracts response of status 500, \<^verbatim>\<open>update_all\<close> raises
  the HTTP error after \<^verbatim>\<open>_update_info\<close> has assigned the metadata.
\<close>

theorem update_all_partial_counterexample:
  "update_all sample_strptime system_utc (Inr (info_response, failed_contracts_response)) market0
     = (Some (HTTPError 500), market1)
   \<and> metadata_fields market1 \<noteq> metadata_fields market0
   \<and> market_name market0 = ''Old name'' \<and> market_name market1 = ''New name''"
proof -
  have "raise_for_status failed_contracts_response = Inl (HTTPError 500)"
    by (simp add: failed_contracts_response_def raise_for_status_def)
  then have "update_all sample_strptime system_utc
               (Inr (info_response, failed_contracts_response)) market0
             = (Some (HTTPError 500), market1)"
    by (simp add: update_all_def update_info_sample update_contracts_def)
  moreover have "market_name market0 = ''Old name''" "market_name market1 = ''New name''"
    by (simp_all add: market0_def market1_def)
  moreover from this have "metadata_fields market1 \<noteq> metadata_fields market0"
    by (simp add: metadata_fields_def)
  ultimately show ?thesis by simp
qed

text \<open>
  C3, amended: refresh-all applies its two sub-updates one after the other, and each
  checks the HTTP status of its own response before it assigns.  If the fetch raised,
  or the info response is an HTTP error, no field is mutated.  If the info update goes
  through (its response is not an HTTP error and its two dates parse), every metadata
  field gets the value of the info payload, whatever the contracts response is: when
  that response is an HTTP error, the error is raised with the metadata fields updated
  and the contract-id list unchanged; when it is not, the contract-id list is updated
  too.
\<close>

theorem update_all_sequential:
  "update_all sp sys (Inl e0) m0 = (Some e0, m0)
   \<and> (raise_for_status ra = Inl e1 \<longrightarrow>
        update_all sp sys (Inr (ra, rb)) m1 = (Some e1, m1))
   \<and> (raise_for_status rc = Inr ()
        \<and> parse_end_date sp sys (dateEndString (json rc)) = Inr ed
        \<and> sp (dateOpened (json rc)) ''%Y-%m-%dT%H:%M:%S.%f'' = Inr d \<longrightarrow>
        (\<exists>m'. metadata_fields m' =
                 (marketName (json rc), marketType (json rc), ed, isActive (json rc),
                  mi_rule (json rc), userHasOwnership (json rc),
                  userHasTradeHistory (json rc), userInvestment (json rc),
                  userMaxPayout (json rc), mi_info (json rc), d,
                  isMarketWatched (json rc), mi_status (json rc), isOpen (json rc),
                  isOpenStatusMessage (json rc), isTradingSuspended (json rc),
                  isTradingSuspendedMessage (json rc), isEngineBusy (json rc),
                  isEngineBusyMessage (json rc))
              \<and> market_id m' = market_id m2
              \<and> contract_ids m' = contract_ids m2
              \<and> (raise_for_status rd = Inl e2 \<longrightarrow>
                    update_all sp sys (Inr (rc, rd)) m2 = (Some e2, m'))
              \<and> (raise_for_status rf = Inr () \<longrightarrow>
                    update_all sp sys (Inr (rc, rf)) m2
                      = (None, m'\<lparr>contract_ids := map contractId (json rf)\<rparr>))))"
proof (intro conjI impI)
  show "update_all sp sys (Inl e0) m0 = (Some e0, m0)"
    by (simp add: update_all_def)
next
  assume "raise_for_status ra = Inl e1"
  then show "update_all sp sys (Inr (ra, rb)) m1 = (Some e1, m1)"
    by (simp add: update_all_def update_info_failed)
next
  assume a: "raise_for_status rc = Inr ()
        \<and> parse_end_date sp sys (dateEndString (json rc)) = Inr ed
        \<and> sp (dateOpened (json rc)) ''%Y-%m-%dT%H:%M:%S.%f'' = Inr d"
  then obtain m' where u: "update_info sp sys rc m2 = (None, m')"
    and f: "metadata_fields m' =
                 (marketName (json rc), marketType (json rc), ed, isActive (json rc),
                  mi_rule (json rc), userHasOwnership (json rc),
                  userHasTradeHistory (json rc), userInvestment (json rc),
                  userMaxPayout (json rc), mi_info (json rc), d,
                  isMarketWatched (json rc), mi_status (json rc), isOpen (json rc),
                  isOpenStatusMessage (json rc), isTradingSuspended (json rc),
                  isTradingSuspendedMessage (json rc), isEngineBusy (json rc),
                  isEngineBusyMessage (json rc))"
    and i: "market_id m' = market_id m2" and c: "contract_ids m' = contract_ids m2"
    using update_info_ok [where resp = rc and sp = sp and sys = sys and ed = ed and d = d
                            and m = m2]
    by blast
  have 1: "raise_for_status rd = Inl e2 \<longrightarrow>
             update_all sp sys (Inr (rc, rd)) m2 = (Some e2, m')"
    by (simp add: update_all_def u update_contracts_failed)
  have 2: "raise_for_status rf = Inr () \<longrightarrow>
             update_all sp sys (Inr (rc, rf)) m2
               = (None, m'\<lparr>contract_ids := map contractId (json rf)\<rparr>)"
    by (simp add: update_all_def u update_contracts_ok)
  from f i c 1 2
  show "\<exists>m'. metadata_fields m' =
                 (marketName (json rc), marketType (json rc), ed, isActive (json rc),
                  mi_rule (json rc), userHasOwnership (json rc),
                  userHasTradeHistory (json rc), userInvestment (json rc),
                  userMaxPayout (json rc), mi_info (json rc), d,
                  isMarketWatched (json rc), mi_status (json rc), isOpen (json rc),
                  isOpenStatusMessage (json rc), isTradingSuspended (json rc),
                  isTradingSuspendedMessage (json rc), isEngineBusy (json rc),
                  isEngineBusyMessage (json rc))
              \<and> market_id m' = market_id m2
              \<and> contract_ids m' = contract_ids m2
              \<and> (raise_for_status rd = Inl e2 \<longrightarrow>
                    update_all sp sys (Inr (rc, rd)) m2 = (Some e2, m'))
              \<and> (raise_for_status rf = Inr () \<longrightarrow>
                    update_all sp sys (Inr (rc, rf)) m2
                      = (None, m'\<lparr>contract_ids := map contractId (json rf)\<rparr>))"
    by blast
qed

theorem update_all_sequential_witness:
  "update_all sample_strptime system_utc (Inl TimeoutError) market0 = (Some TimeoutError, market0)
   \<and> raise_for_status failed_info_response = Inl (HTTPError 503)
   \<and> update_all sample_strptime system_utc (Inr (failed_info_response, contracts_response)) market0
        = (Some (HTTPError 503), market0)
   \<and> raise_for_status info_response = Inr ()
   \<and> parse_end_date sample_strptime system_utc (dateEndString (json info_response))
        = Inr (Some \<lparr> year = 2024, month = 3, day = 1, hour = 21, minute = 0, second = 0,
                       microsecond = 0 \<rparr>)
   \<and> sample_strptime (dateOpened (json info_response)) ''%Y-%m-%dT%H:%M:%S.%f''
        = Inr \<lparr> year = 2024, month = 1, day = 6, hour = 11, minute = 30, second = 0,
                microsecond = 500000 \<rparr>
   \<and> market_name market0 = ''Old name'' \<and> market_name market1 = ''New name''
   \<and> market_type market0 = 0 \<and> market_type market1 = 3
   \<and> raise_for_status failed_contracts_response = Inl (HTTPError 500)
   \<and> update_all sample_strptime system_utc (Inr (info_response, failed_contracts_response)) market0
        = (Some (HTTPError 500), market1)
   \<and> contract_ids market1 = [11, 12]
   \<and> raise_for_status contracts_response = Inr ()
   \<and> update_all sample_strptime system_utc (Inr (info_response, contracts_response)) market0
        = (None, market1\<lparr>contract_ids := [21, 22]\<rparr>)"
proof -
  have f0: "raise_for_status failed_info_response = Inl (HTTPError 503)"
    by (simp add: failed_info_response_def raise_for_status_def)
  have f1: "raise_for_status failed_contracts_response = Inl (HTTPError 500)"
    by (simp add: failed_contracts_response_def raise_for_status_def)
  have ok0: "raise_for_status info_response = Inr ()"
    by (simp add: info_response_def raise_for_status_def)
  have ok1: "raise_for_status contracts_response = Inr ()"
    by (simp add: contracts_response_def raise_for_status_def)
  have ds: "dateEndString (json info_response) = ''03/01/2024 09:00 PM (ET)''"
    by (simp add: info_response_def info_payload_def)
  have ed: "parse_end_date sample_strptime system_utc (dateEndString (json info_response))
        = Inr (Some \<lparr> year = 2024, month = 3, day = 1, hour = 21, minute = 0, second = 0,
                       microsecond = 0 \<rparr>)"
    unfolding ds by (rule parse_end_date_sample)
  have d: "sample_strptime (dateOpened (json info_response)) ''%Y-%m-%dT%H:%M:%S.%f''
        = Inr \<lparr> year = 2024, month = 1, day = 6, hour = 11, minute = 30, second = 0,
                microsecond = 500000 \<rparr>"
    by (simp add: info_response_def info_payload_def sample_strptime_def)
  have j: "map contractId (json contracts_response) = [21, 22]"
    by (simp add: contracts_response_def)
  have names: "market_name market0 = ''Old name''" "market_name market1 = ''New name''"
    "market_type market0 = 0" "market_type market1 = 3" "contract_ids market1 = [11, 12]"
    by (simp_all add: market0_def market1_def)
  note t = update_all_sequential
         [of sample_strptime system_utc TimeoutError market0
             failed_info_response "HTTPError 503" contracts_response market0
             info_response
             "Some \<lparr> year = 2024, month = 3, day = 1, hour = 21, minute = 0, second = 0,
                     microsecond = 0 \<rparr>"
             "\<lparr> year = 2024, month = 1, day = 6, hour = 11, minute = 30, second = 0,
                microsecond = 500000 \<rparr>"
             market0 failed_contracts_response "HTTPError 500" contracts_response]
  from t have a: "update_all sample_strptime system_utc (Inl TimeoutError) market0
                    = (Some TimeoutError, market0)" by blast
  from t f0 have b: "update_all sample_strptime system_utc
                       (Inr (failed_info_response, contracts_response)) market0
                     = (Some (HTTPError 503), market0)" by blast
  from t ok0 ed d f1 ok1 obtain m' where
    m: "metadata_fields m' =
          (marketName (json info_response), marketType (json info_response),
           Some \<lparr> year = 2024, month = 3, day = 1, hour = 21, minute = 0, second = 0,
                  microsecond = 0 \<rparr>, isActive (json info_response),
           mi_rule (json info_response), userHasOwnership (json info_response),
           userHasTradeHistory (json info_response), userInvestment (json info_response),
           userMaxPayout (json info_response), mi_info (json info_response),
           \<lparr> year = 2024, month = 1, day = 6, hour = 11, minute = 30, second = 0,
             microsecond = 500000 \<rparr>,
           isMarketWatched (json info_response), mi_status (json info_response),
           isOpen (json info_response), isOpenStatusMessage (json info_response),
           isTradingSuspended (json info_response),
           isTradingSuspendedMessage (json info_response), isEngineBusy (json info_response),
           isEngineBusyMessage (json info_response))"
      "market_id m' = market_id market0" "contract_ids m' = contract_ids market0"
    and c: "update_all sample_strptime system_utc
              (Inr (info_response, failed_contracts_response)) market0
            = (Some (HTTPError 500), m')"
    and e: "update_all sample_strptime system_utc (Inr (info_response, contracts_response)) market0
            = (None, m'\<lparr>contract_ids := map contractId (json contracts_response)\<rparr>)"
    by blast
  have mf: "metadata_fields m' = metadata_fields market1"
    unfolding m(1)
    by (simp add: metadata_fields_def market1_def info_response_def info_payload_def)
  have "m' = market1"
    by (rule market_eqI [OF mf]) (simp_all add: m(2,3) market0_def market1_def)
  with a b c e f0 f1 ok0 ok1 ed d names show ?thesis by (simp add: j)
qed

text \<open>
  C6.  The claim is that an end date in ET becomes the UTC time of that civil time in
  US Eastern time, whatever the system's timezone.  On a machine whose timezone is UTC
  the code stores 21:00 of 1 March 2024 for ``03/01/2024 09:00 PM (ET)'', not 02:00 of
  2 March 2024 (Eastern standard time is five hours behind UTC on that day): the naive
  time is read as a time of the system's timezone (lemma \<open>parse_end_date_ET\<close>).  The
  other two parts of the claim are the lemmas \<open>parse_end_date_other\<close> and
  \<open>parse_end_date_NA\<close>.
\<close>

theorem end_date_follows_system_timezone:
  "parse_end_date sample_strptime system_utc ''03/01/2024 09:00 PM (ET)'' =
     Inr (Some \<lparr> year = 2024, month = 3, day = 1, hour = 21, minute = 0, second = 0,
                 microsecond = 0 \<rparr>)
   \<and> dateEndString (json info_response) = ''03/01/2024 09:00 PM (ET)''
   \<and> update_info sample_strptime system_utc info_response market0 = (None, market1)
   \<and> end_date market1 =
       Some \<lparr> year = 2024, month = 3, day = 1, hour = 21, minute = 0, second = 0,
              microsecond = 0 \<rparr>
   \<and> end_date market1 \<noteq>
       Some \<lparr> year = 2024, month = 3, day = 2, hour = 2, minute = 0, second = 0,
              microsecond = 0 \<rparr>"
proof -
  have "dateEndString (json info_response) = ''03/01/2024 09:00 PM (ET)''"
    by (simp add: info_response_def info_payload_def)
  moreover have "end_date market1 =
       Some \<lparr> year = 2024, month = 3, day = 1, hour = 21, minute = 0, second = 0,
              microsecond = 0 \<rparr>"
    by (simp add: market1_def)
  ultimately show ?thesis
    using parse_end_date_sample update_info_sample by simp
qed

subsection \<open>Concurrent fetch\<close>

lemma length_finish: "length (finish get urls fs i) = length fs"
  by (simp add: finish_def)

lemma length_foldl_finish: "length (foldl (finish get urls) fs completion) = length fs"
  by (induction completion arbitrary: fs) (simp_all add: length_finish)

lemma nth_foldl_finish:
  "length fs = length urls \<Longrightarrow> i < length urls \<Longrightarrow>
   foldl (finish get urls) fs completion ! i =
     (if i \<in> set completion then Some (get i (urls ! i)) else fs ! i)"
proof (induction completion arbitrary: fs)
  case Nil
  then show ?case by simp
next
  case (Cons j js)
  have len: "length (finish get urls fs j) = length urls"
    using Cons.prems(1) by (simp add: length_finish)
  have step: "finish get urls fs j ! i = (if i = j then Some (get i (urls ! i)) else fs ! i)"
    using Cons.prems by (auto simp: finish_def)
  show ?case
    using Cons.IH [OF len Cons.prems(2)] step by auto
qed

lemma run_pool_all_finished:
  assumes "set completion = {..<length urls}"
  shows "run_pool get urls completion = map (\<lambda>i. Some (get i (urls ! i))) [0..<length urls]"
proof (rule nth_equalityI)
  show "length (run_pool get urls completion)
          = length (map (\<lambda>i. Some (get i (urls ! i))) [0..<length urls])"
    by (simp add: run_pool_def length_foldl_finish submit_all_def)
next
  fix i assume "i < length (run_pool get urls completion)"
  then have i: "i < length urls"
    by (simp add: run_pool_def length_foldl_finish submit_all_def)
  with assms have "i \<in> set completion" by simp
  with i show "run_pool get urls completion ! i
                 = map (\<lambda>i. Some (get i (urls ! i))) [0..<length urls] ! i"
    by (simp add: run_pool_def nth_foldl_finish submit_all_def)
qed

lemma results_all_ok: "results (map (\<lambda>x. Some (Inr (f x))) xs) = Inr (map f xs)"
  by (induction xs) simp_all

text \<open>
  C7.  When every call finishes with a response, in whatever order the calls finish,
  \<^verbatim>\<open>concurrent_get\<close> returns a list as long as the list of URLs whose element \<open>i\<close> is
  the response to the call for URL \<open>i\<close>.
\<close>

theorem concurrent_get_positional:
  assumes "set completion = {..<length urls}"
    and "\<forall>i<length urls. get i (urls ! i) = Inr (r i)"
  shows "\<exists>rs. concurrent_get get urls completion = Inr rs \<and> length rs = length urls
              \<and> (\<forall>i<length urls. rs ! i = r i)"
proof -
  have eq: "map (\<lambda>i. Some (get i (urls ! i))) [0..<length urls]
          = map (\<lambda>i. Some (Inr (r i))) [0..<length urls]"
    using assms(2) by simp
  have "concurrent_get get urls completion
          = results (map (\<lambda>i. Some (get i (urls ! i))) [0..<length urls])"
    by (simp only: concurrent_get_def run_pool_all_finished [OF assms(1)])
  also have "\<dots> = results (map (\<lambda>i. Some (Inr (r i))) [0..<length urls])"
    by (simp only: eq)
  also have "\<dots> = Inr (map r [0..<length urls])"
    by (rule results_all_ok)
  finally show ?thesis by simp
qed

theorem concurrent_get_positional_witness:
  "set [2, 0, 1] = {..<length [''a'', ''b'', ''c'']}
   \<and> echo_get 0 ([''a'', ''b'', ''c''] ! 0) = Inr (0, ''a'')
   \<and> echo_get 1 ([''a'', ''b'', ''c''] ! 1) = Inr (1, ''b'')
   \<and> echo_get 2 ([''a'', ''b'', ''c''] ! 2) = Inr (2, ''c'')
   \<and> (\<exists>rs. concurrent_get echo_get [''a'', ''b'', ''c''] [2, 0, 1] = Inr rs
           \<and> length rs = 3 \<and> rs ! 0 = (0, ''a'') \<and> rs ! 1 = (1, ''b'')
           \<and> rs ! 2 = (2, ''c''))"
proof -
  have c: "set [2, 0, 1] = {..<length [''a'', ''b'', ''c'']}"
    by (auto simp: numeral_eq_Suc lessThan_Suc)
  have g: "\<forall>i<length [''a'', ''b'', ''c''].
         echo_get i ([''a'', ''b'', ''c''] ! i) = Inr (i, [''a'', ''b'', ''c''] ! i)"
    by (simp add: echo_get_def)
  from concurrent_get_positional
         [where completion = "[2, 0, 1]" and urls = "[''a'', ''b'', ''c'']" and get = echo_get
            and r = "\<lambda>i. (i, [''a'', ''b'', ''c''] ! i)", OF c g]
  obtain rs where rs: "concurrent_get echo_get [''a'', ''b'', ''c''] [2, 0, 1] = Inr rs"
    "length rs = length [''a'', ''b'', ''c'']"
    "\<forall>i<length [''a'', ''b'', ''c'']. rs ! i = (i, [''a'', ''b'', ''c''] ! i)"
    by blast
  from rs(3) have "rs ! 0 = (0, ''a'')" "rs ! 1 = (1, ''b'')" "rs ! 2 = (2, ''c'')"
    by simp_all
  with rs(1,2) c show ?thesis by (simp add: echo_get_def)
qed

lemma concurrent_get_sample:
  "concurrent_get echo_get [''a'', ''b'', ''c''] [2, 0, 1] = Inr [(0, ''a''), (1, ''b''), (2, ''c'')]"
  by (simp add: concurrent_get_def run_pool_def submit_all_def finish_def echo_get_def)

text \<open>A call that has not finished within the timeout makes \<^verbatim>\<open>concurrent_get\<close> raise.\<close>

lemma results_timeout:
  "i < length fs \<Longrightarrow> fs ! i = None \<Longrightarrow> \<exists>e. results fs = Inl e"
proof (induction fs arbitrary: i rule: results.induct)
  case (4 r fs)
  then show ?case by (cases i) (auto split: sum.splits)
qed auto

lemma concurrent_get_unfinished:
  assumes "i < length urls" and "i \<notin> set completion"
  shows "\<exists>e. concurrent_get get urls completion = Inl e"
proof -
  have "run_pool get urls completion ! i = None"
    using assms by (simp add: run_pool_def nth_foldl_finish submit_all_def)
  moreover have "i < length (run_pool get urls completion)"
    using assms(1) by (simp add: run_pool_def length_foldl_finish submit_all_def)
  ultimately show ?thesis
    unfolding concurrent_get_def by (rule results_timeout [rotated])
qed

subsection \<open>Accessors that return lists\<close>

lemma independent_new_list:
  "f < used h \<Longrightarrow> independent_read (\<lambda>h. Inr (new_list (g (cell h f)) h)) h"
  by (simp add: independent_read_def new_list_def mutate_def)

lemma independent_copy:
  "f < used h \<Longrightarrow> independent_read (\<lambda>h. Inr (list_copy f h)) h"
  by (simp add: independent_read_def list_copy_def new_list_def mutate_def)

lemma accessor_eqs:
  "contract_ids_obj m = (\<lambda>h. Inr (list_copy (contract_ids_ref m) h))"
  "my_market_ids_obj a = (\<lambda>h. Inr (list_copy (my_market_ids_ref a) h))"
  "my_contract_ids_obj a = (\<lambda>h. Inr (list_copy (my_contract_ids_ref a) h))"
  "order_book_ref c 1 = Some y \<Longrightarrow> yes_asks_obj c = (\<lambda>h. Inr (list_copy y h))"
  "order_book_ref c 1 = Some y \<Longrightarrow>
     no_bids_obj c = (\<lambda>h. Inr (new_list (complement_orders (cell h y)) h))"
  "order_book_ref c 0 = Some n \<Longrightarrow> yes_bids_obj c = (\<lambda>h. Inr (list_copy n h))"
  "order_book_ref c 0 = Some n \<Longrightarrow>
     no_asks_obj c = (\<lambda>h. Inr (new_list (complement_orders (cell h n)) h))"
  "my_orders_ref c 0 = Some b0 \<Longrightarrow> my_no_bids_obj c = (\<lambda>h. Inr (list_copy b0 h))"
  "my_orders_ref c 1 = Some b1 \<Longrightarrow> my_yes_bids_obj c = (\<lambda>h. Inr (list_copy b1 h))"
  "my_orders_ref c 2 = Some b2 \<Longrightarrow> my_no_asks_obj c = (\<lambda>h. Inr (list_copy b2 h))"
  "my_orders_ref c 3 = Some b3 \<Longrightarrow> my_yes_asks_obj c = (\<lambda>h. Inr (list_copy b3 h))"
  by (simp_all add: fun_eq_iff contract_ids_obj_def my_market_ids_obj_def
        my_contract_ids_obj_def yes_asks_obj_def no_bids_obj_def yes_bids_obj_def
        no_asks_obj_def my_no_bids_obj_def my_yes_bids_obj_def my_no_asks_obj_def
        my_yes_asks_obj_def)

lemma order_book_obj_values:
  assumes "order_book_ref co 1 = Some y" and "order_book_ref co 0 = Some n"
    and "order_book c = [1 \<mapsto> cell h y, 0 \<mapsto> cell h n]"
  shows "map_sum id (\<lambda>(r, h1). cell h1 r) (yes_asks_obj co h) = yes_asks c"
    and "map_sum id (\<lambda>(r, h1). cell h1 r) (yes_bids_obj co h) = yes_bids c"
    and "map_sum id (\<lambda>(r, h1). cell h1 r) (no_asks_obj co h) = no_asks c"
    and "map_sum id (\<lambda>(r, h1). cell h1 r) (no_bids_obj co h) = no_bids c"
  using assms
  by (simp_all add: yes_asks_obj_def yes_bids_obj_def no_asks_obj_def no_bids_obj_def
        yes_asks_def yes_bids_def no_asks_def no_bids_def list_copy_def new_list_def)

text \<open>
  C10.  Each of the list-valued accessors \<^verbatim>\<open>Market.contract_ids\<close>,
  \<^verbatim>\<open>Account.my_market_ids\<close>, \<^verbatim>\<open>Account.my_contract_ids\<close> and, of \<^verbatim>\<open>Contract\<close>,
  \<^verbatim>\<open>yes_asks\<close>, \<^verbatim>\<open>yes_bids\<close>, \<^verbatim>\<open>no_asks\<close>, \<^verbatim>\<open>no_bids\<close>, \<^verbatim>\<open>my_no_bids\<close>, \<^verbatim>\<open>my_yes_bids\<close>,
  \<^verbatim>\<open>my_no_asks\<close> and \<^verbatim>\<open>my_yes_asks\<close> returns a list that is independent of the object's
  state: mutating it changes no list the object holds, and a second read returns a list
  equal to the first.
\<close>

theorem list_accessors_independent:
  "(contract_ids_ref m < used hi \<longrightarrow> independent_read (contract_ids_obj m) hi)
   \<and> (my_market_ids_ref a < used hi \<longrightarrow> independent_read (my_market_ids_obj a) hi)
   \<and> (my_contract_ids_ref a < used hi \<longrightarrow> independent_read (my_contract_ids_obj a) hi)
   \<and> (order_book_ref c 1 = Some y \<and> y < used ho \<longrightarrow>
        independent_read (yes_asks_obj c) ho \<and> independent_read (no_bids_obj c) ho)
   \<and> (order_book_ref c 0 = Some n \<and> n < used ho \<longrightarrow>
        independent_read (yes_bids_obj c) ho \<and> independent_read (no_asks_obj c) ho)
   \<and> (my_orders_ref c 0 = Some b0 \<and> b0 < used hm \<longrightarrow> independent_read (my_no_bids_obj c) hm)
   \<and> (my_orders_ref c 1 = Some b1 \<and> b1 < used hm \<longrightarrow> independent_read (my_yes_bids_obj c) hm)
   \<and> (my_orders_ref c 2 = Some b2 \<and> b2 < used hm \<longrightarrow> independent_read (my_no_asks_obj c) hm)
   \<and> (my_orders_ref c 3 = Some b3 \<and> b3 < used hm \<longrightarrow> independent_read (my_yes_asks_obj c) hm)"
  by (intro conjI impI; (elim conjE)?)
     (simp_all only: accessor_eqs independent_copy independent_new_list)

theorem list_accessors_independent_witness:
  "contract_ids_ref sample_market_obj < used ids_store
   \<and> independent_read (contract_ids_obj sample_market_obj) ids_store
   \<and> my_market_ids_ref sample_account_obj < used ids_store
   \<and> independent_read (my_market_ids_obj sample_account_obj) ids_store
   \<and> my_contract_ids_ref sample_account_obj < used ids_store
   \<and> independent_read (my_contract_ids_obj sample_account_obj) ids_store
   \<and> order_book_ref sample_contract_obj 1 = Some 0 \<and> 0 < used book_store
   \<and> independent_read (yes_asks_obj sample_contract_obj) book_store
   \<and> independent_read (no_bids_obj sample_contract_obj) book_store
   \<and> order_book_ref sample_contract_obj 0 = Some 1 \<and> 1 < used book_store
   \<and> independent_read (yes_bids_obj sample_contract_obj) book_store
   \<and> independent_read (no_asks_obj sample_contract_obj) book_store
   \<and> my_orders_ref sample_contract_obj 0 = Some 0 \<and> 0 < used own_store
   \<and> independent_read (my_no_bids_obj sample_contract_obj) own_store
   \<and> my_orders_ref sample_contract_obj 1 = Some 1 \<and> 1 < used own_store
   \<and> independent_read (my_yes_bids_obj sample_contract_obj) own_store
   \<and> my_orders_ref sample_contract_obj 2 = Some 2 \<and> 2 < used own_store
   \<and> independent_read (my_no_asks_obj sample_contract_obj) own_store
   \<and> my_orders_ref sample_contract_obj 3 = Some 3 \<and> 3 < used own_store
   \<and> independent_read (my_yes_asks_obj sample_contract_obj) own_store"
proof -
  have h: "contract_ids_ref sample_market_obj < used ids_store"
    "my_market_ids_ref sample_account_obj < used ids_store"
    "my_contract_ids_ref sample_account_obj < used ids_store"
    "order_book_ref sample_contract_obj 1 = Some 0" "0 < used book_store"
    "order_book_ref sample_contract_obj 0 = Some 1" "1 < used book_store"
    "my_orders_ref sample_contract_obj 0 = Some 0" "0 < used own_store"
    "my_orders_ref sample_contract_obj 1 = Some 1" "1 < used own_store"
    "my_orders_ref sample_contract_obj 2 = Some 2" "2 < used own_store"
    "my_orders_ref sample_contract_obj 3 = Some 3" "3 < used own_store"
    by (simp_all add: sample_market_obj_def sample_account_obj_def sample_contract_obj_def
          ids_store_def book_store_def own_store_def)
  from list_accessors_independent
         [of sample_market_obj ids_store sample_account_obj sample_contract_obj 0 book_store
             1 0 own_store 1 2 3] h
  show ?thesis by simp
qed

end
